theory Spec2Isabelle
  imports Complex_Main "HOL-Library.Word"
begin

section \<open>Values shared by all operations of \<open>src/utils/pdfUtils.ts\<close>\<close>

text \<open>
  A \<open>Uint8Array\<close> is a list of bytes.  A thrown JavaScript value is reduced to the two
  properties the code inspects, \<open>name\<close> and \<open>message\<close>; either may be undefined.
  Strings are lists of 8-bit characters, so messages are ASCII here; \<open>toLowerCase\<close> maps
  \<open>A\<close>..\<open>Z\<close> to \<open>a\<close>..\<open>z\<close> and leaves every other character alone.
\<close>

type_synonym bytes = "8 word list"

record js_error =
  err_name :: "string option"
  err_message :: "string option"

definition new_Error :: "string \<Rightarrow> js_error" where
  "new_Error m = \<lparr>err_name = Some ''Error'', err_message = Some m\<rparr>"

fun startsWith :: "string \<Rightarrow> string \<Rightarrow> bool" where
  "startsWith s [] = True"
| "startsWith [] (c # cs) = False"
| "startsWith (x # xs) (c # cs) = (x = c \<and> startsWith xs cs)"

definition endsWith :: "string \<Rightarrow> string \<Rightarrow> bool" where
  "endsWith s t = startsWith (rev s) (rev t)"

fun str_includes :: "string \<Rightarrow> string \<Rightarrow> bool" where
  "str_includes [] t = (t = [])"
| "str_includes (c # cs) t = (startsWith (c # cs) t \<or> str_includes cs t)"

definition lower_char :: "char \<Rightarrow> char" where
  "lower_char c =
     (let n = (of_char c :: nat) in if 65 \<le> n \<and> n \<le> 90 then char_of (n + 32) else c)"

definition toLowerCase :: "string \<Rightarrow> string" where
  "toLowerCase s = map lower_char s"

text \<open>\<open>b.slice(start)\<close> is a new array with the bytes of \<open>b\<close> from \<open>start\<close> on.\<close>

definition js_slice :: "nat \<Rightarrow> bytes \<Rightarrow> bytes" where
  [simp]: "js_slice start b = drop start b"

text \<open>\<open>e.message && e.message.includes(t)\<close>: false for an undefined or empty message.\<close>

definition msg_includes :: "js_error \<Rightarrow> string \<Rightarrow> bool" where
  "msg_includes e t =
     (case err_message e of None \<Rightarrow> False | Some m \<Rightarrow> m \<noteq> [] \<and> str_includes m t)"

section \<open>Documents of the editing library\<close>

text \<open>
  The object model of the editing library (pdf-lib), as far as the operations touch it:
  a document is its list of pages; a page stores a rotation angle, a size, the content it
  was parsed with (opaque) and the images drawn on it since.  JavaScript numbers are
  modelled exactly: angles and page indices as integers, lengths as reals.
\<close>

record image =
  img_width :: real
  img_height :: real
  img_data :: bytes

record drawn_image =
  di_image :: image
  di_x :: real
  di_y :: real
  di_width :: real
  di_height :: real

record page =
  rotation :: int
  width :: real
  height :: real
  content :: bytes
  drawn :: "drawn_image list"

record document =
  pages :: "page list"

text \<open>\<open>PDFDocument.create()\<close>, \<open>doc.addPage(page)\<close>, \<open>doc.addPage([w, h])\<close>.\<close>

definition create :: document where
  "create = \<lparr>pages = []\<rparr>"

definition addPage :: "page \<Rightarrow> document \<Rightarrow> document" where
  "addPage p d = d\<lparr>pages := pages d @ [p]\<rparr>"

definition blank_page :: "real \<Rightarrow> real \<Rightarrow> page" where
  "blank_page w h = \<lparr>rotation = 0, width = w, height = h, content = [], drawn = []\<rparr>"

section \<open>The rendering library and the environment\<close>

text \<open>
  The rendering library (pdf.js) is read from \<open>window.pdfjsLib\<close> and may be absent.
  \<open>getDocument\<close> is the outcome of \<open>getDocument({data, password}).promise\<close>;
  \<open>data_after\<close> is what the buffer handed over as \<open>data\<close> holds once the call is over
  (pdf.js may transfer the buffer to its worker, which leaves the caller's array detached,
  that is, empty).  A rendered page yields the PNG bytes of its canvas at a given scale, or
  fails.
\<close>

record pdfjs_page =
  render_png :: "real \<Rightarrow> js_error + bytes"
  render_url :: "real \<Rightarrow> js_error + string"

record pdfjs_doc =
  pj_pages :: "pdfjs_page list"

record pdfjs_lib =
  getDocument :: "bytes \<Rightarrow> string option \<Rightarrow> js_error + pdfjs_doc"
  data_after :: "bytes \<Rightarrow> bytes"

text \<open>
  Everything the operations call outside \<open>pdfUtils.ts\<close>: \<open>PDFDocument.load\<close> and
  \<open>doc.save\<close> of the editing library, its image embedders, \<open>window.pdfjsLib\<close>,
  \<open>encryptPDF\<close> (which returns bytes, or nothing), the table \<open>PageSizes\<close> and the
  browser's \<open>FileReader\<close>, whose outcome for a file is the field \<open>file_data\<close>.
\<close>

record js_file =
  file_type :: string
  file_name :: string
  file_data :: "js_error + bytes"

definition readFileAsArrayBuffer :: "js_file \<Rightarrow> js_error + bytes" where
  [simp]: "readFileAsArrayBuffer f = file_data f"

record env =
  lib_load :: "bytes \<Rightarrow> string option \<Rightarrow> js_error + document"
  lib_save :: "document \<Rightarrow> bytes"
  lib_embedJpg :: "bytes \<Rightarrow> js_error + image"
  lib_embedPng :: "bytes \<Rightarrow> js_error + image"
  pdfjs :: "pdfjs_lib option"
  encryptPDF :: "bytes \<Rightarrow> string \<Rightarrow> string \<Rightarrow> bytes option"
  PageSizes_A4 :: "real \<times> real"
  PageSizes_Letter :: "real \<times> real"

section \<open>loadPdf\<close>

definition unsupported_error :: js_error where
  "unsupported_error = new_Error ''The password is correct, but this PDF uses an encryption format (likely AES-256 R6) not supported by the editing engine.''"

definition incorrect_password_error :: js_error where
  "incorrect_password_error = new_Error ''Incorrect password. Please double-check your password.''"

definition generic_encryption_error :: js_error where
  "generic_encryption_error = new_Error ''Incorrect password or the file is encrypted with an unsupported format.''"

text \<open>The test of line 36 on \<open>(e.message || '').toLowerCase()\<close>.\<close>

definition is_encryption_failure :: "js_error \<Rightarrow> bool" where
  "is_encryption_failure e =
     (let msg = toLowerCase (case err_message e of None \<Rightarrow> [] | Some m \<Rightarrow> m)
      in str_includes msg ''encrypted'' \<or> str_includes msg ''password'' \<or> str_includes msg ''security handler'')"

text \<open>The test of line 63 on the error caught from the rendering library.\<close>

definition password_specific :: "js_error \<Rightarrow> bool" where
  "password_specific e =
     (err_name e = Some ''PasswordException'' \<or> msg_includes e ''Password'')"

text \<open>
  The inner \<open>try\<close>/\<open>catch\<close> of lines 43 to 66.  The \<open>try\<close> block always ends in a throw:
  the rendering library's error, or the error of line 55 when the library opened the
  clone \<open>pdfBytes.slice(0)\<close>.  The handler rethrows what mentions the editing engine,
  turns a password error into the error of line 64, and otherwise falls through
  (\<open>None\<close>).
\<close>

definition verify_with_pdfjs :: "pdfjs_lib \<Rightarrow> bytes \<Rightarrow> string \<Rightarrow> js_error option" where
  "verify_with_pdfjs lib pdfBytes password =
     (let pdfJsErr = (case getDocument lib (js_slice 0 pdfBytes) (Some password) of
                        Inl e \<Rightarrow> e
                      | Inr _ \<Rightarrow> unsupported_error)
      in if msg_includes pdfJsErr ''editing engine'' then Some pdfJsErr
         else if password_specific pdfJsErr then Some incorrect_password_error
         else None)"

text \<open>\<open>password ? { password } : undefined\<close>: an empty password is no password.\<close>

definition load_options :: "string option \<Rightarrow> string option" where
  "load_options password =
     (case password of None \<Rightarrow> None | Some p \<Rightarrow> if p = [] then None else Some p)"

definition loadPdf :: "env \<Rightarrow> bytes \<Rightarrow> string option \<Rightarrow> js_error + document" where
  "loadPdf env pdfBytes password =
     (case lib_load env pdfBytes (load_options password) of
        Inr doc \<Rightarrow> Inr doc
      | Inl e \<Rightarrow>
          if is_encryption_failure e then
            (case load_options password of
               None \<Rightarrow> Inl generic_encryption_error
             | Some p \<Rightarrow>
                 (case pdfjs env of
                    None \<Rightarrow> Inl generic_encryption_error
                  | Some lib \<Rightarrow>
                      (case verify_with_pdfjs lib pdfBytes p of
                         Some thrown \<Rightarrow> Inl thrown
                       | None \<Rightarrow> Inl generic_encryption_error)))
          else Inl e)"

section \<open>rasterizePdf\<close>

text \<open>
  One turn of the loop of lines 96 to 131: render the page at scale 2 into a canvas, take
  its PNG bytes, embed them and add a page of the image's size divided by the scale with
  the image drawn on all of it.  Any step may throw.
\<close>

definition rasterize_page :: "env \<Rightarrow> pdfjs_page \<Rightarrow> js_error + page" where
  "rasterize_page env pg =
     (let scale = 2 in
      case render_png pg scale of
        Inl e \<Rightarrow> Inl e
      | Inr png \<Rightarrow>
          (case lib_embedPng env png of
             Inl e \<Rightarrow> Inl e
           | Inr embeddedImage \<Rightarrow>
               (let w = img_width embeddedImage * (1 / scale);
                    h = img_height embeddedImage * (1 / scale)
                in Inr ((blank_page w h)\<lparr>drawn :=
                     [\<lparr>di_image = embeddedImage, di_x = 0, di_y = 0,
                       di_width = w, di_height = h\<rparr>]\<rparr>))))"

fun rasterize_pages :: "env \<Rightarrow> pdfjs_page list \<Rightarrow> document \<Rightarrow> js_error + document" where
  "rasterize_pages env [] newPdfDoc = Inr newPdfDoc"
| "rasterize_pages env (pg # rest) newPdfDoc =
     (case rasterize_page env pg of
        Inl e \<Rightarrow> Inl e
      | Inr newPage \<Rightarrow> rasterize_pages env rest (addPage newPage newPdfDoc))"

definition rasterizePdf :: "env \<Rightarrow> bytes \<Rightarrow> string option \<Rightarrow> js_error + bytes" where
  "rasterizePdf env pdfBytes password =
     (case pdfjs env of
        None \<Rightarrow> Inl (new_Error ''PDF engine not initialized.'')
      | Some lib \<Rightarrow>
          (case getDocument lib (js_slice 0 pdfBytes) password of
             Inl e \<Rightarrow> Inl e
           | Inr pdf \<Rightarrow>
               (case rasterize_pages env (pj_pages pdf) create of
                  Inl e \<Rightarrow> Inl e
                | Inr newPdfDoc \<Rightarrow> Inr (lib_save env newPdfDoc))))"

section \<open>Copying pages and getCleanPdfBytes\<close>

text \<open>
  \<open>getPageIndices\<close> lists \<open>0 .. n - 1\<close>.  \<open>copyPages\<close> returns one fresh copy per index,
  in the order of the indices; an index that names no page makes the library dereference
  an undefined page, a \<open>TypeError\<close>.
\<close>

definition getPageIndices :: "document \<Rightarrow> int list" where
  "getPageIndices d = map int [0 ..< length (pages d)]"

definition copy_error :: js_error where
  "copy_error = \<lparr>err_name = Some ''TypeError'',
                  err_message = Some ''Cannot read properties of undefined''\<rparr>"

definition copyPages :: "document \<Rightarrow> int list \<Rightarrow> js_error + page list" where
  "copyPages srcDoc indices =
     (if list_all (\<lambda>i. 0 \<le> i \<and> i < int (length (pages srcDoc))) indices
      then Inr (map (\<lambda>i. pages srcDoc ! nat i) indices)
      else Inl copy_error)"

text \<open>The \<open>try\<close> block of getCleanPdfBytes, lines 142 to 147.\<close>

definition clean_copy :: "env \<Rightarrow> bytes \<Rightarrow> string option \<Rightarrow> js_error + bytes" where
  "clean_copy env pdfBytes password =
     (case loadPdf env pdfBytes password of
        Inl e \<Rightarrow> Inl e
      | Inr srcDoc \<Rightarrow>
          (case copyPages srcDoc (getPageIndices srcDoc) of
             Inl e \<Rightarrow> Inl e
           | Inr copiedPages \<Rightarrow> Inr (lib_save env (fold addPage copiedPages create))))"

definition getCleanPdfBytes :: "env \<Rightarrow> bytes \<Rightarrow> string option \<Rightarrow> js_error + bytes" where
  "getCleanPdfBytes env pdfBytes password =
     (case clean_copy env pdfBytes password of
        Inr out \<Rightarrow> Inr out
      | Inl e \<Rightarrow>
          if msg_includes e ''editing engine'' then rasterizePdf env pdfBytes password
          else Inl e)"

section \<open>createPdfFromImages\<close>











section \<open>mergePdfs, rotatePdf, organizePdf\<close>









section \<open>protectPdf and unlockPdf\<close>

definition empty_output_error :: js_error where
  "empty_output_error = new_Error ''Encryption failed: Output is empty.''"

definition protectPdf :: "env \<Rightarrow> bytes \<Rightarrow> string \<Rightarrow> string option \<Rightarrow> js_error + bytes" where
  "protectPdf env pdfBytes password oldPassword =
     (case getCleanPdfBytes env pdfBytes oldPassword of
        Inl e \<Rightarrow> Inl e
      | Inr cleanBytes \<Rightarrow>
          (case encryptPDF env cleanBytes password password of
             None \<Rightarrow> Inl empty_output_error
           | Some encryptedBytes \<Rightarrow>
               if length encryptedBytes = 0 then Inl empty_output_error
               else Inr encryptedBytes))"

definition unlockPdf :: "env \<Rightarrow> bytes \<Rightarrow> string \<Rightarrow> js_error + bytes" where
  "unlockPdf env pdfBytes password = getCleanPdfBytes env pdfBytes (Some password)"

section \<open>generatePdfThumbnails and checkPdfPassword\<close>

text \<open>
  generatePdfThumbnails hands \<open>pdfBytes\<close> itself to \<open>getDocument\<close>, where loadPdf and
  rasterizePdf hand over the copy \<open>pdfBytes.slice(0)\<close>.  The function therefore returns,
  next to the thumbnails, what the caller's buffer holds afterwards.
\<close>

fun render_thumbnails :: "pdfjs_page list \<Rightarrow> string list \<Rightarrow> js_error + string list" where
  "render_thumbnails [] thumbnails = Inr thumbnails"
| "render_thumbnails (pg # rest) thumbnails =
     (case render_url pg (1 / 2) of
        Inl e \<Rightarrow> Inl e
      | Inr url \<Rightarrow> render_thumbnails rest (thumbnails @ [url]))"

definition generatePdfThumbnails :: "env \<Rightarrow> bytes \<Rightarrow> string option \<Rightarrow> string list \<times> bytes" where
  "generatePdfThumbnails env pdfBytes password =
     (case pdfjs env of
        None \<Rightarrow> ([], pdfBytes)
      | Some lib \<Rightarrow>
          ((case getDocument lib pdfBytes password of
              Inl e \<Rightarrow> []
            | Inr pdf \<Rightarrow>
                (case render_thumbnails (pj_pages pdf) [] of
                   Inl e \<Rightarrow> []
                 | Inr thumbnails \<Rightarrow> thumbnails)),
           data_after lib pdfBytes))"

definition checkPdfPassword :: "env \<Rightarrow> js_file \<Rightarrow> js_error + bool" where
  "checkPdfPassword env f =
     (case pdfjs env of
        None \<Rightarrow> Inr False
      | Some lib \<Rightarrow>
          (case readFileAsArrayBuffer f of
             Inl e \<Rightarrow> Inl e
           | Inr arrayBuffer \<Rightarrow>
               (case getDocument lib arrayBuffer None of
                  Inr pdf \<Rightarrow> Inr False
                | Inl e \<Rightarrow>
                    if err_name e = Some ''PasswordException'' then Inr True
                    else Inr False)))"

section \<open>Example environments and auxiliary definitions\<close>

definition example_page :: "bytes \<Rightarrow> page" where
  "example_page c = \<lparr>rotation = 0, width = 612, height = 792, content = c, drawn = []\<rparr>"

definition example_env ::
  "(bytes \<Rightarrow> string option \<Rightarrow> js_error + document) \<Rightarrow> pdfjs_lib option \<Rightarrow> env" where
  "example_env load pj =
     \<lparr>lib_load = load,
      lib_save = (\<lambda>d. concat (map content (pages d))),
      lib_embedJpg = (\<lambda>b. if b = [] then Inl (new_Error ''SOI not found in JPEG'')
                          else Inr \<lparr>img_width = 800, img_height = 600, img_data = b\<rparr>),
      lib_embedPng = (\<lambda>b. if b = [] then Inl (new_Error ''Not a PNG'')
                          else Inr \<lparr>img_width = 100, img_height = 50, img_data = b\<rparr>),
      pdfjs = pj,
      encryptPDF = (\<lambda>b u w. if u = [] then None else Some (b @ [255])),
      PageSizes_A4 = (595.28, 841.89),
      PageSizes_Letter = (612, 792)\<rparr>"


definition pdfjs_opening :: pdfjs_lib where
  "pdfjs_opening = \<lparr>getDocument = (\<lambda>b pw. Inr \<lparr>pj_pages = []\<rparr>), data_after = (\<lambda>b. [])\<rparr>"


definition pdfjs_rejecting :: "js_error \<Rightarrow> pdfjs_lib" where
  "pdfjs_rejecting e = \<lparr>getDocument = (\<lambda>b pw. Inl e), data_after = (\<lambda>b. [])\<rparr>"


definition page_per_byte_load :: "bytes \<Rightarrow> string option \<Rightarrow> js_error + document" where
  "page_per_byte_load b pw = Inr \<lparr>pages = map (\<lambda>c. example_page [c]) b\<rparr>"






text \<open>Files: what the \<open>FileReader\<close> gives for them, or its error.\<close>

definition read_error :: js_error where
  "read_error = \<lparr>err_name = Some ''NotReadableError'', err_message = Some ''The file could not be read''\<rparr>"



definition text_file :: js_file where
  "text_file = \<lparr>file_type = ''text/plain'', file_name = ''notes.txt'', file_data = Inr [104, 105]\<rparr>"

definition unreadable_file :: js_file where
  "unreadable_file = \<lparr>file_type = ''text/plain'', file_name = ''notes.txt'', file_data = Inl read_error\<rparr>"

section \<open>The string helpers\<close>

lemma startsWith_iff: "startsWith s t \<longleftrightarrow> (\<exists>r. s = t @ r)"
  by (induction s t rule: startsWith.induct) auto

lemma str_includes_iff: "str_includes s t \<longleftrightarrow> (\<exists>a b. s = a @ t @ b)"
proof (induction s)
  case Nil
  then show ?case by simp
next
  case (Cons c cs)
  show ?case
  proof
    assume "str_includes (c # cs) t"
    then consider "startsWith (c # cs) t" | "str_includes cs t" by auto
    then show "\<exists>a b. c # cs = a @ t @ b"
    proof cases
      case 1
      then obtain r where "c # cs = t @ r" by (auto simp: startsWith_iff)
      then have "c # cs = [] @ t @ r" by simp
      then show ?thesis by blast
    next
      case 2
      with Cons.IH obtain a b where "cs = a @ t @ b" by auto
      then have "c # cs = (c # a) @ t @ b" by simp
      then show ?thesis by blast
    qed
  next
    assume "\<exists>a b. c # cs = a @ t @ b"
    then obtain a b where ab: "c # cs = a @ t @ b" by auto
    show "str_includes (c # cs) t"
    proof (cases a)
      case Nil
      with ab have "startsWith (c # cs) t" by (auto simp: startsWith_iff)
      then show ?thesis by simp
    next
      case (Cons x a')
      with ab have "cs = a' @ t @ b" by simp
      with Cons.IH have "str_includes cs t" by blast
      then show ?thesis by simp
    qed
  qed
qed

lemma endsWith_iff: "endsWith s t \<longleftrightarrow> (\<exists>r. s = r @ t)"
proof -
  have "(\<exists>r. rev s = rev t @ r) \<longleftrightarrow> (\<exists>r. s = r @ t)"
  proof
    assume "\<exists>r. rev s = rev t @ r"
    then obtain r where "rev s = rev t @ r" by auto
    then have "rev (rev s) = rev (rev t @ r)" by simp
    then have "s = rev r @ t" by simp
    then show "\<exists>r. s = r @ t" by blast
  next
    assume "\<exists>r. s = r @ t"
    then obtain r where "s = r @ t" by auto
    then have "rev s = rev t @ rev r" by simp
    then show "\<exists>r. rev s = rev t @ r" by blast
  qed
  then show ?thesis by (simp add: endsWith_def startsWith_iff)
qed

lemma toLowerCase_examples:
  "toLowerCase ''Security Handler #5'' = ''security handler #5''"
  "is_encryption_failure (new_Error ''Document is ENCRYPTED'')"
  "\<not> is_encryption_failure (new_Error ''Failed to parse PDF document'')"
  "\<not> is_encryption_failure \<lparr>err_name = Some ''TypeError'', err_message = None\<rparr>"
  by (simp_all add: toLowerCase_def lower_char_def is_encryption_failure_def new_Error_def char_of_def bit_Suc_0_iff)

section \<open>Properties of loadPdf\<close>






lemma verify_marker:
  "getDocument lib b (Some p) = Inl pe \<Longrightarrow> msg_includes pe ''editing engine'' \<Longrightarrow>
   verify_with_pdfjs lib b p = Some pe"
  by (simp add: verify_with_pdfjs_def)




section \<open>Properties of getCleanPdfBytes\<close>


lemma copyPages_all: "copyPages d (getPageIndices d) = Inr (pages d)"
proof -
  have "map (\<lambda>i. pages d ! nat i) (map int [0 ..< length (pages d)]) = pages d"
    by (simp add: map_nth o_def)
  moreover have "list_all (\<lambda>i. 0 \<le> i \<and> i < int (length (pages d))) (map int [0 ..< length (pages d)])"
    by (simp add: list_all_iff)
  ultimately show ?thesis
    by (simp add: copyPages_def getPageIndices_def)
qed








section \<open>Properties of rotatePdf, organizePdf and mergePdfs\<close>















section \<open>Properties of protectPdf\<close>

text \<open>
  Claim C6.  protectPdf first runs getCleanPdfBytes with the old password, whose failure
  is the result.  On clean bytes it calls \<open>encryptPDF\<close> with the new password in both
  password positions; the result is the empty-output error exactly when that call gives
  nothing or an empty array, and the encrypted bytes otherwise.
\<close>

theorem protectPdf_steps:
  "(\<forall>e. getCleanPdfBytes env pdfBytes oldPassword = Inl e \<longrightarrow>
        protectPdf env pdfBytes password oldPassword = Inl e)
   \<and> (\<forall>cleanBytes. getCleanPdfBytes env pdfBytes oldPassword = Inr cleanBytes \<longrightarrow>
        (protectPdf env pdfBytes password oldPassword = Inl empty_output_error
           \<longleftrightarrow> encryptPDF env cleanBytes password password = None
             \<or> encryptPDF env cleanBytes password password = Some [])
      \<and> (\<forall>encryptedBytes. encryptPDF env cleanBytes password password = Some encryptedBytes
             \<and> encryptedBytes \<noteq> [] \<longrightarrow>
           protectPdf env pdfBytes password oldPassword = Inr encryptedBytes))"
  by (auto simp add: protectPdf_def split: option.splits)

text \<open>Encryption that appends a byte, and encryption that yields nothing.\<close>

theorem protectPdf_steps_witness:
  "protectPdf (example_env page_per_byte_load None) [7, 8] ''new'' None = Inr [7, 8, 255]
   \<and> protectPdf (example_env page_per_byte_load None) [7, 8] [] None = Inl empty_output_error"
proof -
  let ?env = "example_env page_per_byte_load None"
  have c: "getCleanPdfBytes ?env [7, 8] None = Inr [7, 8]"
    by (simp add: getCleanPdfBytes_def clean_copy_def loadPdf_def load_options_def
        example_env_def page_per_byte_load_def copyPages_all addPage_def create_def
        example_page_def)
  have e1: "encryptPDF ?env [7, 8] ''new'' ''new'' = Some [7, 8, 255]"
    by (simp add: example_env_def)
  have e2: "encryptPDF ?env [7, 8] [] [] = None"
    by (simp add: example_env_def)
  show ?thesis
    using protectPdf_steps [of ?env "[7, 8]" None "''new''"]
      protectPdf_steps [of ?env "[7, 8]" None "[]"] c e1 e2
    by simp
qed

section \<open>Properties of createPdfFromImages\<close>









section \<open>Properties of checkPdfPassword and generatePdfThumbnails\<close>

text \<open>
  Claim C8, as the code has it.  checkPdfPassword returns true exactly when the rendering
  library is present, the file is read, and the open without a password raises an error
  named \<open>PasswordException\<close>.  It returns false when the library is absent, and, for a
  file that is read, when the open succeeds or raises any other error.
\<close>

theorem checkPdfPassword_classifies:
  "(checkPdfPassword env f = Inr True \<longleftrightarrow>
      (\<exists>lib b e. pdfjs env = Some lib \<and> file_data f = Inr b
         \<and> getDocument lib b None = Inl e \<and> err_name e = Some ''PasswordException''))
   \<and> (pdfjs env = None \<longrightarrow> checkPdfPassword env f = Inr False)
   \<and> (\<forall>lib b. pdfjs env = Some lib \<and> file_data f = Inr b \<longrightarrow>
        (\<forall>pdf. getDocument lib b None = Inr pdf \<longrightarrow> checkPdfPassword env f = Inr False)
      \<and> (\<forall>e. getDocument lib b None = Inl e \<and> err_name e \<noteq> Some ''PasswordException'' \<longrightarrow>
            checkPdfPassword env f = Inr False))"
  by (auto simp add: checkPdfPassword_def split: option.splits sum.splits)

text \<open>A protected file, an open file, a damaged file, and no rendering library.\<close>

theorem checkPdfPassword_classifies_witness:
  "checkPdfPassword (example_env page_per_byte_load
      (Some (pdfjs_rejecting \<lparr>err_name = Some ''PasswordException'',
                              err_message = Some ''No password given''\<rparr>))) text_file = Inr True
   \<and> checkPdfPassword (example_env page_per_byte_load (Some pdfjs_opening)) text_file = Inr False
   \<and> checkPdfPassword (example_env page_per_byte_load
      (Some (pdfjs_rejecting \<lparr>err_name = Some ''InvalidPDFException'',
                              err_message = Some ''Invalid PDF structure''\<rparr>))) text_file = Inr False
   \<and> checkPdfPassword (example_env page_per_byte_load None) text_file = Inr False"
proof -
  let ?pe = "\<lparr>err_name = Some ''PasswordException'', err_message = Some ''No password given''\<rparr>"
  let ?ie = "\<lparr>err_name = Some ''InvalidPDFException'', err_message = Some ''Invalid PDF structure''\<rparr>"
  have a: "\<exists>lib b e. pdfjs (example_env page_per_byte_load (Some (pdfjs_rejecting ?pe))) = Some lib
      \<and> file_data text_file = Inr b \<and> getDocument lib b None = Inl e
      \<and> err_name e = Some ''PasswordException''"
    by (simp add: example_env_def text_file_def pdfjs_rejecting_def)
  show ?thesis
    using checkPdfPassword_classifies [of "example_env page_per_byte_load (Some (pdfjs_rejecting ?pe))" text_file]
      checkPdfPassword_classifies [of "example_env page_per_byte_load (Some pdfjs_opening)" text_file]
      checkPdfPassword_classifies [of "example_env page_per_byte_load (Some (pdfjs_rejecting ?ie))" text_file]
      checkPdfPassword_classifies [of "example_env page_per_byte_load None" text_file]
      a
    by (simp add: example_env_def text_file_def pdfjs_rejecting_def pdfjs_opening_def)
qed

text \<open>
  C8 as stated fails for a file that cannot be read: the read of line 437 is outside the
  \<open>try\<close> block, so checkPdfPassword raises the read error instead of returning false.
\<close>

theorem checkPdfPassword_unreadable_counterexample:
  "checkPdfPassword (example_env page_per_byte_load (Some pdfjs_opening)) unreadable_file
     = Inl read_error
   \<and> checkPdfPassword (example_env page_per_byte_load (Some pdfjs_opening)) unreadable_file
     \<noteq> Inr False"
  by (simp add: checkPdfPassword_def example_env_def unreadable_file_def)

text \<open>
  Claim C9 at generatePdfThumbnails.  With a rendering library that takes over the data
  buffer it is given, the caller's four bytes are gone after the call, since the
  function passes the buffer itself and not a copy.
\<close>

theorem generatePdfThumbnails_empties_buffer:
  "snd (generatePdfThumbnails (example_env page_per_byte_load (Some pdfjs_opening))
         [37, 80, 68, 70] None) = []
   \<and> snd (generatePdfThumbnails (example_env page_per_byte_load (Some pdfjs_opening))
         [37, 80, 68, 70] None) \<noteq> [37, 80, 68, 70]"
  by (simp add: generatePdfThumbnails_def example_env_def pdfjs_opening_def)

end
